theory Spec2Isabelle
  imports Main
begin

section \<open>Python values, truthiness and exceptions\<close>

text \<open>
  The repository is three Python modules: \<^verbatim>\<open>utilities.py\<close> (one file writer),
  \<^verbatim>\<open>app.py\<close> (the report plugin and the agent factory) and \<^verbatim>\<open>app_ui.py\<close> (the two
  chat handlers). Exceptions are values of \<open>py_error\<close>; a call that may raise returns
  \<open>py_error + 'a\<close> together with the state it leaves behind. Only subclasses of
  Python's \<^verbatim>\<open>Exception\<close> are modelled: they are what \<^verbatim>\<open>except Exception\<close> catches.
  Strings the code only concatenates, compares and tests for emptiness (paths,
  settings, messages) are byte lists in UTF-8, which agree with code points on all three.
  The report's content is encoded by the code; it has a type of its own below.
\<close>

datatype py_error =
    ValueError string
  | OSError string
  | UnicodeEncodeError string
  | ExternalError string

fun str_exc :: "py_error \<Rightarrow> string" where
  "str_exc (ValueError m) = m"
| "str_exc (OSError m) = m"
| "str_exc (UnicodeEncodeError m) = m"
| "str_exc (ExternalError m) = m"

text \<open>\<^verbatim>\<open>bool(x)\<close> for an optional string: \<^verbatim>\<open>None\<close> and \<^verbatim>\<open>""\<close> are falsy.\<close>

definition truthy :: "string option \<Rightarrow> bool" where
  "truthy v = (case v of None \<Rightarrow> False | Some s \<Rightarrow> s \<noteq> [])"

text \<open>\<^verbatim>\<open>a or b\<close>: the left operand when it is truthy, the right one otherwise.\<close>

definition py_or :: "string option \<Rightarrow> string option \<Rightarrow> string option" where
  "py_or a b = (if truthy a then a else b)"

text \<open>\<^verbatim>\<open>os.getenv(k)\<close> and \<^verbatim>\<open>os.getenv(k, d)\<close> over the process environment.\<close>

definition getenv :: "(string \<rightharpoonup> string) \<Rightarrow> string \<Rightarrow> string option" where
  "getenv env k = env k"

definition getenv_default :: "(string \<rightharpoonup> string) \<Rightarrow> string \<Rightarrow> string \<Rightarrow> string option" where
  "getenv_default env k d = (case env k of None \<Rightarrow> Some d | Some v \<Rightarrow> Some v)"

section \<open>Text that is encoded\<close>

text \<open>
  A Python \<^verbatim>\<open>str\<close> is a sequence of code points, and \<^verbatim>\<open>open(..., encoding='utf-8')\<close>
  encodes what is written. Every code point has a UTF-8 form but the surrogates (U+D800
  to U+DFFF), on which the codec raises \<^verbatim>\<open>UnicodeEncodeError\<close>. A \<^verbatim>\<open>str\<close> that is written
  to a file is therefore kept as a list of units: the bytes of the UTF-8 form of each
  code point that has one, and each surrogate code point as it is.
\<close>

datatype code_unit = Utf8 char | Surrogate nat

type_synonym py_str = "code_unit list"

text \<open>The \<^verbatim>\<open>str\<close> whose encoding is the given bytes.\<close>

definition py_text :: "string \<Rightarrow> py_str" where
  "py_text bs = map Utf8 bs"

text \<open>\<^verbatim>\<open>s.encode('utf-8')\<close>: the bytes, or nothing when the codec raises.\<close>

fun utf8_encode :: "py_str \<Rightarrow> string option" where
  "utf8_encode [] = Some []"
| "utf8_encode (Utf8 b # us) = map_option ((#) b) (utf8_encode us)"
| "utf8_encode (Surrogate n # us) = None"

section \<open>The operating system as the report plugin sees it\<close>

text \<open>
  The plugin calls \<^verbatim>\<open>os.makedirs(d, exist_ok=True)\<close>, \<^verbatim>\<open>open(p, 'w')\<close>, \<^verbatim>\<open>f.write\<close> and
  \<^verbatim>\<open>print\<close>. Their effect is kept in a record: the directories and files that exist,
  what was printed, and the two ways storage refuses an operation: \<open>denied\<close> holds the
  paths the system will not create or open for writing (permissions, invalid path),
  \<open>disk_full\<close> says that writing data fails. Paths are compared as the strings given.
\<close>

record os_state =
  dirs :: "string set"
  files :: "string \<rightharpoonup> string"
  denied :: "string set"
  disk_full :: bool
  stdout :: "string list"

definition os_makedirs :: "string \<Rightarrow> os_state \<Rightarrow> (py_error + unit) \<times> os_state" where
  "os_makedirs d s =
     (if d = [] then (Inl (OSError ''FileNotFoundError''), s)
      else if d \<in> dirs s then (Inr (), s)
      else if files s d \<noteq> None then (Inl (OSError ''FileExistsError''), s)
      else if d \<in> denied s then (Inl (OSError ''PermissionError''), s)
      else (Inr (), s\<lparr>dirs := insert d (dirs s)\<rparr>))"

text \<open>Mode \<^verbatim>\<open>'w'\<close> creates the file or truncates it to empty.\<close>

definition open_w :: "string \<Rightarrow> os_state \<Rightarrow> (py_error + unit) \<times> os_state" where
  "open_w path s =
     (if path \<in> denied s then (Inl (OSError ''PermissionError''), s)
      else if path \<in> dirs s then (Inl (OSError ''IsADirectoryError''), s)
      else (Inr (), s\<lparr>files := (files s)(path \<mapsto> [])\<rparr>))"

text \<open>
  \<^verbatim>\<open>f.write(content)\<close> on a file opened with \<^verbatim>\<open>encoding='utf-8'\<close>: the whole content is
  encoded first, and the codec's error leaves the file as \<^verbatim>\<open>open\<close> left it; then the
  bytes are added at the end of what the open file holds.
\<close>

definition file_write :: "string \<Rightarrow> py_str \<Rightarrow> os_state \<Rightarrow> (py_error + unit) \<times> os_state" where
  "file_write path content s =
     (case utf8_encode content of
        None \<Rightarrow> (Inl (UnicodeEncodeError ''surrogates not allowed''), s)
      | Some data \<Rightarrow>
          (if disk_full s then (Inl (OSError ''No space left on device''), s)
           else (Inr (), s\<lparr>files := (files s)(path \<mapsto>
                   (case files s path of None \<Rightarrow> data | Some old \<Rightarrow> old @ data))\<rparr>)))"

definition print :: "string \<Rightarrow> os_state \<Rightarrow> os_state" where
  "print line s = s\<lparr>stdout := stdout s @ [line]\<rparr>"

text \<open>\<^verbatim>\<open>os.path.join(a, b)\<close> on POSIX (\<^verbatim>\<open>posixpath.join\<close> with two components).\<close>

definition os_path_join :: "string \<Rightarrow> string \<Rightarrow> string" where
  "os_path_join a b =
     (if b \<noteq> [] \<and> hd b = CHR ''/'' then b
      else if a = [] \<or> last a = CHR ''/'' then a @ b
      else a @ ''/'' @ b)"

section \<open>utilities.py\<close>

text \<open>
  \<^verbatim>\<open>write_to_file_md\<close>: open, write, report success; on any exception report it and
  raise it again.
\<close>

definition write_to_file_md :: "string \<Rightarrow> py_str \<Rightarrow> os_state \<Rightarrow> (py_error + unit) \<times> os_state" where
  "write_to_file_md file_path content s =
     (case open_w file_path s of
        (Inl e, s1) \<Rightarrow>
          (Inl e, print (''Error writing to file '' @ file_path @ '': '' @ str_exc e) s1)
      | (Inr _, s1) \<Rightarrow>
          (case file_write file_path content s1 of
             (Inl e, s2) \<Rightarrow>
               (Inl e, print (''Error writing to file '' @ file_path @ '': '' @ str_exc e) s2)
           | (Inr _, s2) \<Rightarrow>
               (Inr (), print (''Successfully wrote content to '' @ file_path) s2)))"

section \<open>app.py: the report plugin\<close>

text \<open>The module constant \<^verbatim>\<open>REPORT_DIR = os.getenv("REPORT_DIR", "./ClusterReports/")\<close>.\<close>

definition REPORT_DIR :: "(string \<rightharpoonup> string) \<Rightarrow> string" where
  "REPORT_DIR env = (case env ''REPORT_DIR'' of None \<Rightarrow> ''./ClusterReports/'' | Some v \<Rightarrow> v)"

definition report_path :: "(string \<rightharpoonup> string) \<Rightarrow> string" where
  "report_path env = os_path_join (REPORT_DIR env) ''cluster_summary.md''"

definition confirmation :: "string \<Rightarrow> string" where
  "confirmation file_path =
     ''Cluster summary document generated: '' @ [CHR 0x60] @ file_path @ [CHR 0x60]"

definition generate_cluster_summary ::
  "(string \<rightharpoonup> string) \<Rightarrow> py_str \<Rightarrow> bool \<Rightarrow> os_state \<Rightarrow> (py_error + py_str) \<times> os_state" where
  "generate_cluster_summary env summary_markdown save_file s =
     (if save_file then
        (case os_makedirs (REPORT_DIR env) s of
           (Inl e, s1) \<Rightarrow> (Inl e, s1)
         | (Inr _, s1) \<Rightarrow>
             (let file_path = os_path_join (REPORT_DIR env) ''cluster_summary.md'' in
              case write_to_file_md file_path summary_markdown s1 of
                (Inl e, s2) \<Rightarrow> (Inl e, s2)
              | (Inr _, s2) \<Rightarrow> (Inr (py_text (confirmation file_path)), s2)))
      else (Inr summary_markdown, s))"

section \<open>app.py: the agent factory\<close>

text \<open>
  The objects the factory builds. An MCP plugin object carries an identity \<open>mcp_id\<close>:
  each constructor call makes a new object, and that is what tells one session's
  adapter from another's.
\<close>

record service =
  service_id :: string
  svc_deployment_name :: "string option"
  svc_endpoint :: "string option"
  svc_api_key :: "string option"
  svc_api_version :: "string option"

record mcp_plugin =
  mcp_id :: nat
  mcp_name :: string
  mcp_description :: string
  mcp_command :: string
  mcp_args :: "string list"

datatype plugin = Mcp mcp_plugin | ClusterReportPlugin

record kernel =
  services :: "service list"
  plugins :: "(string \<times> plugin) list"

record agent =
  agent_kernel :: kernel
  agent_name :: string
  agent_description :: string
  agent_instructions :: "string option"

text \<open>
  What a streamed response item looks like to \<^verbatim>\<open>hasattr\<close> and \<^verbatim>\<open>str\<close>: \<^verbatim>\<open>None\<close>, a
  string, or an object with named attributes and a \<^verbatim>\<open>str()\<close> rendering.
\<close>

datatype pyval = PyNone | PyStr string | PyObj "(string \<times> pyval) list" string

fun py_str :: "pyval \<Rightarrow> string" where
  "py_str PyNone = ''None''"
| "py_str (PyStr s) = s"
| "py_str (PyObj attrs r) = r"

fun py_attr :: "pyval \<Rightarrow> string \<Rightarrow> pyval option" where
  "py_attr (PyObj attrs r) n = map_of attrs n"
| "py_attr v n = None"

text \<open>
  The two libraries are outside the repository, so what they do is a parameter:
  \<^item> \<open>azure_chat_completion\<close>: the exception the \<^verbatim>\<open>AzureChatCompletion\<close> constructor raises
    on these settings, if any;
  \<^item> \<open>mcp_aenter\<close>: the exception the awaited \<^verbatim>\<open>__aenter__\<close> raises when it launches the
    subprocess of the plugin object with this identity, if any;
  \<^item> \<open>add_plugin_none\<close>: the exception \<^verbatim>\<open>kernel.add_plugin\<close> raises when it is handed
    \<^verbatim>\<open>None\<close> for the plugin;
  \<^item> \<open>agent_invoke\<close>: the \<open>n\<close>-th call of \<^verbatim>\<open>agent.invoke\<close> in the process: the items the
    asynchronous generator yields, and the exception that ends it when it does not
    finish normally.
\<close>

record library =
  azure_chat_completion :: "service \<Rightarrow> py_error option"
  mcp_aenter :: "nat \<Rightarrow> py_error option"
  add_plugin_none :: py_error
  agent_invoke :: "nat \<Rightarrow> agent \<Rightarrow> string \<Rightarrow> pyval list \<times> py_error option"

datatype adapter_event = Started nat | Stopped nat

text \<open>
  \<^verbatim>\<open>create_kubernetes_discovery_agent\<close> is a coroutine with one \<^verbatim>\<open>await\<close> (line 81). While
  it is suspended there, the event loop may run other handlers. What the suspended call
  keeps is its local variables: the kernel, the instructions, and the plugin object
  whose \<^verbatim>\<open>__aenter__\<close> it awaits.
\<close>

record create_frame =
  fr_kernel :: kernel
  fr_instructions :: "string option"
  fr_entering :: mcp_plugin

text \<open>
  The process: its environment (read once, never written by the code), the module
  global \<^verbatim>\<open>kube_discovery_plugin\<close>, the next object identity, the adapter subprocesses
  started and stopped so far, and the chat framework's side: the agent stored per session
  under the key \<^verbatim>\<open>"agent"\<close>, the \<^verbatim>\<open>start\<close> handlers suspended at the \<^verbatim>\<open>await\<close> (by session),
  the messages sent to each session, and the calls of \<^verbatim>\<open>agent.invoke\<close> made.
\<close>

record process =
  environ :: "string \<rightharpoonup> string"
  kube_discovery_plugin :: "mcp_plugin option"
  next_id :: nat
  adapter_events :: "adapter_event list"
  user_session :: "nat \<rightharpoonup> agent"
  pending :: "nat \<rightharpoonup> create_frame"
  outbox :: "(nat \<times> string) list"
  invocations :: "(nat \<times> string) list"

definition config_error_msg :: string where
  "config_error_msg =
     ''Azure OpenAI endpoint and API key must be provided either as parameters or environment variables''"

definition default_instructions :: string where
  "default_instructions =
     ''You are a Kubernetes discovery assistant that helps users explore and assess their Kubernetes clusters. You can discover namespaces, pods, services, deployments, and generate detailed cluster reports.''"

text \<open>
  Lines 48 to 81, up to the \<^verbatim>\<open>await\<close>: the settings, the check, the completion service,
  the plugin object assigned to the global, and the call of its \<^verbatim>\<open>__aenter__\<close>.
\<close>

definition create_begin ::
  "library \<Rightarrow> string option \<Rightarrow> string option \<Rightarrow> string option \<Rightarrow> string option
     \<Rightarrow> process \<Rightarrow> (py_error + create_frame) \<times> process" where
  "create_begin lib instructions deployment_name endpoint api_key p =
     (let deployment_name1 = py_or deployment_name
            (getenv_default (environ p) ''AZURE_OPENAI_DEPLOYMENT_NAME'' ''gpt-4o-standard'');
          endpoint1 = py_or endpoint (getenv (environ p) ''AZURE_OPENAI_ENDPOINT'');
          api_key1 = py_or api_key (getenv (environ p) ''AZURE_OPENAI_API_KEY'');
          api_version = getenv_default (environ p) ''AZURE_OPENAI_API_VERSION'' ''2024-02-01''
      in
      if \<not> truthy endpoint1 \<or> \<not> truthy api_key1 then (Inl (ValueError config_error_msg), p)
      else
        (let instructions1 = py_or instructions (Some default_instructions);
             svc = \<lparr>service_id = ''default'', svc_deployment_name = deployment_name1,
                    svc_endpoint = endpoint1, svc_api_key = api_key1,
                    svc_api_version = api_version\<rparr>
         in
         (case azure_chat_completion lib svc of
            Some e \<Rightarrow> (Inl e, p)
          | None \<Rightarrow>
             (let k1 = \<lparr>services = [svc], plugins = []\<rparr>;
                  pl = \<lparr>mcp_id = next_id p, mcp_name = ''kubernetes'',
                        mcp_description = ''Kubernetes discovery plugin'',
                        mcp_command = ''npx'', mcp_args = [''mcp-server-kubernetes'']\<rparr>;
                  p1 = p\<lparr>kube_discovery_plugin := Some pl, next_id := Suc (next_id p)\<rparr>
              in (Inr \<lparr>fr_kernel = k1, fr_instructions = instructions1, fr_entering = pl\<rparr>,
                  p1)))))"

text \<open>
  From the \<^verbatim>\<open>await\<close> on, lines 81 to 92: the launch has raised or the subprocess runs;
  then \<^verbatim>\<open>kernel.add_plugin(kube_discovery_plugin, ...)\<close> reads the module global again, as
  it is now, and registers that object; then the report plugin and the agent.
\<close>

definition create_resume :: "library \<Rightarrow> create_frame \<Rightarrow> process \<Rightarrow> (py_error + agent) \<times> process" where
  "create_resume lib fr p =
     (case mcp_aenter lib (mcp_id (fr_entering fr)) of
        Some e \<Rightarrow> (Inl e, p)
      | None \<Rightarrow>
         (let p2 = p\<lparr>adapter_events := adapter_events p @ [Started (mcp_id (fr_entering fr))]\<rparr>
          in
          (case kube_discovery_plugin p2 of
             None \<Rightarrow> (Inl (add_plugin_none lib), p2)
           | Some g \<Rightarrow>
              (let k1 = fr_kernel fr;
                   k2 = k1\<lparr>plugins := plugins k1 @
                          [(''kubernetes_discovery_plugin'', Mcp g)]\<rparr>;
                   k3 = k2\<lparr>plugins := plugins k2 @
                          [(''cluster_report_plugin'', ClusterReportPlugin)]\<rparr>;
                   a = \<lparr>agent_kernel = k3, agent_name = ''KubernetesDiscoveryAgent'',
                        agent_description = ''Discovers Kubernetes namespaces, pods, services, images, and generates cluster summary document.'',
                        agent_instructions = fr_instructions fr\<rparr>
               in (Inr a, p2)))))"

text \<open>The whole call, when nothing else runs while it awaits.\<close>

definition create_kubernetes_discovery_agent ::
  "library \<Rightarrow> string option \<Rightarrow> string option \<Rightarrow> string option \<Rightarrow> string option
     \<Rightarrow> process \<Rightarrow> (py_error + agent) \<times> process" where
  "create_kubernetes_discovery_agent lib instructions deployment_name endpoint api_key p =
     (case create_begin lib instructions deployment_name endpoint api_key p of
        (Inl e, p1) \<Rightarrow> (Inl e, p1)
      | (Inr fr, p1) \<Rightarrow> create_resume lib fr p1)"

section \<open>app_ui.py: the chat handlers\<close>

text \<open>
  \<^verbatim>\<open>cl.Message(content=c).send()\<close> hands a message to the chat framework for the session;
  the model records it, and takes the framework to accept every message.
\<close>

definition send :: "nat \<Rightarrow> string \<Rightarrow> process \<Rightarrow> process" where
  "send sid c p = p\<lparr>outbox := outbox p @ [(sid, c)]\<rparr>"

definition cross_mark :: string where
  "cross_mark = [CHR 0xE2, CHR 0x9D, CHR 0x8C]"

definition not_initialized_msg :: string where
  "not_initialized_msg = cross_mark @ '' Agent not initialized. Please refresh the page.''"

definition no_response_msg :: string where
  "no_response_msg = cross_mark @ '' No response received from the agent.''"

definition error_prefix :: string where
  "error_prefix = cross_mark @ '' Error processing your request: ''"

definition welcome_msg :: string where
  "welcome_msg =
    [CHR 0x0A] @ ''    '' @ [CHR 0xF0, CHR 0x9F, CHR 0x8E, CHR 0xAF] @
    '' **AKS AI Agent** - Kubernetes Discovery Assistant'' @ [CHR 0x0A] @ ''    '' @
    [CHR 0x0A] @ ''    I can help you explore and analyze your AKS cluster! Here'' @
    [CHR 0x27] @ ''s what I can do:'' @ [CHR 0x0A] @ ''    '' @ [CHR 0x0A] @ ''    '' @
    [CHR 0xF0, CHR 0x9F, CHR 0x94, CHR 0x8D] @ '' **Cluster Discovery:**'' @ [CHR 0x0A] @
    ''    - List namespaces, nodes, pods, services'' @ [CHR 0x0A] @
    ''    - Show deployments and workloads'' @ [CHR 0x0A] @ ''    - Analyze resource usage'' @
    [CHR 0x0A] @ ''    '' @ [CHR 0x0A] @ ''    '' @ [CHR 0xF0, CHR 0x9F, CHR 0x93, CHR 0x8A] @
    '' **Reports '' @ [CHR 0x26] @ '' Analysis:**'' @ [CHR 0x0A] @
    ''    - Generate cluster summary reports'' @ [CHR 0x0A] @
    ''    - Identify potential issues'' @ [CHR 0x0A] @
    ''    - Provide optimization recommendations'' @ [CHR 0x0A] @ ''    '' @ [CHR 0x0A] @
    ''    **Try asking me:**'' @ [CHR 0x0A] @ ''    - '' @ [CHR 0x22] @
    ''Show me all namespaces in the cluster'' @ [CHR 0x22, CHR 0x0A] @ ''    - '' @
    [CHR 0x22] @ ''List all pods in the kube-system namespace'' @ [CHR 0x22, CHR 0x0A] @
    ''    - '' @ [CHR 0x22] @ ''Generate a cluster summary report'' @ [CHR 0x22, CHR 0x0A] @
    ''    - '' @ [CHR 0x22] @ ''What nodes are running in the cluster?'' @
    [CHR 0x22, CHR 0x0A] @ ''    '' @ [CHR 0x0A] @
    ''    How can I help you explore your Kubernetes cluster today?'' @ [CHR 0x0A] @ ''    ''"

text \<open>
  \<^verbatim>\<open>on_chat_start\<close>: build the agent from the environment, store it, greet. First the
  handler as a whole, when nothing else runs while it awaits.
\<close>

definition start :: "library \<Rightarrow> nat \<Rightarrow> process \<Rightarrow> (py_error + unit) \<times> process" where
  "start lib sid p =
     (case create_kubernetes_discovery_agent lib None None None None p of
        (Inl e, p1) \<Rightarrow> (Inl e, p1)
      | (Inr a, p1) \<Rightarrow>
          (Inr (), send sid welcome_msg (p1\<lparr>user_session := (user_session p1)(sid \<mapsto> a)\<rparr>)))"

text \<open>
  The same handler in the two steps the event loop sees: up to the \<^verbatim>\<open>await\<close> inside
  \<^verbatim>\<open>create_kubernetes_discovery_agent\<close>, where it is suspended, and from there to its end.
  Resuming a session that has no suspended handler does nothing.
\<close>

definition start_begin :: "library \<Rightarrow> nat \<Rightarrow> process \<Rightarrow> (py_error + unit) \<times> process" where
  "start_begin lib sid p =
     (case create_begin lib None None None None p of
        (Inl e, p1) \<Rightarrow> (Inl e, p1)
      | (Inr fr, p1) \<Rightarrow> (Inr (), p1\<lparr>pending := (pending p1)(sid \<mapsto> fr)\<rparr>))"

definition start_resume :: "library \<Rightarrow> nat \<Rightarrow> process \<Rightarrow> (py_error + unit) \<times> process" where
  "start_resume lib sid p =
     (case pending p sid of
        None \<Rightarrow> (Inr (), p)
      | Some fr \<Rightarrow>
          (case create_resume lib fr (p\<lparr>pending := (pending p)(sid := None)\<rparr>) of
             (Inl e, p1) \<Rightarrow> (Inl e, p1)
           | (Inr a, p1) \<Rightarrow>
               (Inr (), send sid welcome_msg (p1\<lparr>user_session := (user_session p1)(sid \<mapsto> a)\<rparr>))))"

text \<open>The text one streamed item adds to the reply (the three \<^verbatim>\<open>hasattr\<close> branches).\<close>

definition item_text :: "pyval \<Rightarrow> string" where
  "item_text response =
     (case py_attr response ''content'' of
        Some c \<Rightarrow>
          (case py_attr c ''content'' of
             Some cc \<Rightarrow> py_str cc
           | None \<Rightarrow> py_str c)
      | None \<Rightarrow> py_str response)"

text \<open>The \<^verbatim>\<open>async for\<close> loop: \<^verbatim>\<open>response_content += ...\<close> for each item in turn.\<close>

fun accumulate :: "string \<Rightarrow> pyval list \<Rightarrow> string" where
  "accumulate response_content [] = response_content"
| "accumulate response_content (r # rs) = accumulate (response_content @ item_text r) rs"

text \<open>
  The body of the \<^verbatim>\<open>try\<close> block of \<^verbatim>\<open>on_message\<close>: it raises what the generator
  raises.
\<close>

definition on_message_try :: "library \<Rightarrow> nat \<Rightarrow> agent \<Rightarrow> string \<Rightarrow> process \<Rightarrow> (py_error + unit) \<times> process" where
  "on_message_try lib sid a content p =
     (let p1 = p\<lparr>invocations := invocations p @ [(sid, content)]\<rparr> in
      case agent_invoke lib (length (invocations p)) a content of
        (items, Some e) \<Rightarrow> (Inl e, p1)
      | (items, None) \<Rightarrow>
          (let response_content = accumulate [] items in
           if response_content \<noteq> [] then (Inr (), send sid response_content p1)
           else (Inr (), send sid no_response_msg p1)))"

definition on_message :: "library \<Rightarrow> nat \<Rightarrow> string \<Rightarrow> process \<Rightarrow> (py_error + unit) \<times> process" where
  "on_message lib sid content p =
     (case user_session p sid of
        None \<Rightarrow> (Inr (), send sid not_initialized_msg p)
      | Some a \<Rightarrow>
          (case on_message_try lib sid a content p of
             (Inl e, p1) \<Rightarrow> (Inr (), send sid (error_prefix @ str_exc e) p1)
           | (Inr _, p1) \<Rightarrow> (Inr (), p1)))"

section \<open>Sessions over time\<close>

text \<open>
  What the chat framework does to the process: on its one event loop it calls \<^verbatim>\<open>start\<close>
  when a session opens and \<^verbatim>\<open>on_message\<close> for each message; an exception a handler raises
  ends that handler only. A \<^verbatim>\<open>start\<close> either runs with nothing in between (\<open>ChatStart\<close>),
  or it is suspended at its \<^verbatim>\<open>await\<close> (\<open>StartBegins\<close>) and resumed later
  (\<open>StartResumes\<close>), with other sessions' handlers running in between. \<^verbatim>\<open>on_message\<close>
  reads and writes nothing but its own session's agent and the logs, so where it is
  suspended makes no difference and it is one step. \<^verbatim>\<open>app_ui.py\<close> registers no handler
  for the end of a session, so when a session closes the framework forgets the
  session's data and no code of the repository runs.
\<close>

datatype host_event =
    ChatStart nat
  | StartBegins nat
  | StartResumes nat
  | UserMessage nat string
  | ChatEnd nat

fun host_step :: "library \<Rightarrow> host_event \<Rightarrow> process \<Rightarrow> process" where
  "host_step lib (ChatStart sid) p = snd (start lib sid p)"
| "host_step lib (StartBegins sid) p = snd (start_begin lib sid p)"
| "host_step lib (StartResumes sid) p = snd (start_resume lib sid p)"
| "host_step lib (UserMessage sid m) p = snd (on_message lib sid m p)"
| "host_step lib (ChatEnd sid) p = p\<lparr>user_session := (user_session p)(sid := None)\<rparr>"

fun host_run :: "library \<Rightarrow> host_event list \<Rightarrow> process \<Rightarrow> process" where
  "host_run lib [] p = p"
| "host_run lib (e # es) p = host_run lib es (host_step lib e p)"

text \<open>
  \<^verbatim>\<open>test/test_main_app.py\<close> releases the adapter in its \<^verbatim>\<open>finally\<close> block:
  \<^verbatim>\<open>if app.kube_discovery_plugin: await app.kube_discovery_plugin.__aexit__(None, None, None)\<close>.
\<close>

definition aexit :: "mcp_plugin \<Rightarrow> process \<Rightarrow> process" where
  "aexit pl p = p\<lparr>adapter_events := adapter_events p @ [Stopped (mcp_id pl)]\<rparr>"

definition test_main_app_cleanup :: "process \<Rightarrow> process" where
  "test_main_app_cleanup p =
     (case kube_discovery_plugin p of None \<Rightarrow> p | Some pl \<Rightarrow> aexit pl p)"

text \<open>
  The process right after \<^verbatim>\<open>app.py\<close> is imported: \<^verbatim>\<open>kube_discovery_plugin = None\<close>, no
  session, nothing sent.
\<close>

definition boot :: "(string \<rightharpoonup> string) \<Rightarrow> process" where
  "boot env = \<lparr>environ = env, kube_discovery_plugin = None, next_id = 0, adapter_events = [],
               user_session = Map.empty, pending = Map.empty, outbox = [], invocations = []\<rparr>"

section \<open>Notions the properties are stated with\<close>

text \<open>
  Storage lets a report through when the report directory can be made (it is a
  non-empty path that is a directory already, or that is free and not refused) and the
  report file can be opened and written.
\<close>

definition storage_accepts :: "(string \<rightharpoonup> string) \<Rightarrow> os_state \<Rightarrow> bool" where
  "storage_accepts env s =
     (REPORT_DIR env \<noteq> [] \<and>
      (REPORT_DIR env \<in> dirs s \<or> (files s (REPORT_DIR env) = None \<and> REPORT_DIR env \<notin> denied s)) \<and>
      report_path env \<notin> denied s \<and> report_path env \<notin> dirs s \<and> \<not> disk_full s)"

text \<open>
  The completion service the call constructs (lines 51 to 54 and 65 to 71) from its
  arguments and the environment.
\<close>

definition completion_service ::
  "string option \<Rightarrow> string option \<Rightarrow> string option \<Rightarrow> (string \<rightharpoonup> string) \<Rightarrow> service" where
  "completion_service deployment_name endpoint api_key env =
     \<lparr>service_id = ''default'',
      svc_deployment_name = py_or deployment_name
        (getenv_default env ''AZURE_OPENAI_DEPLOYMENT_NAME'' ''gpt-4o-standard''),
      svc_endpoint = py_or endpoint (getenv env ''AZURE_OPENAI_ENDPOINT''),
      svc_api_key = py_or api_key (getenv env ''AZURE_OPENAI_API_KEY''),
      svc_api_version = getenv_default env ''AZURE_OPENAI_API_VERSION'' ''2024-02-01''\<rparr>"


text \<open>The identities of the MCP plugin objects registered in a kernel.\<close>

fun adapter_ids :: "(string \<times> plugin) list \<Rightarrow> nat list" where
  "adapter_ids [] = []"
| "adapter_ids ((n, Mcp pl) # ps) = mcp_id pl # adapter_ids ps"
| "adapter_ids ((n, ClusterReportPlugin) # ps) = adapter_ids ps"

definition adapters_of :: "agent \<Rightarrow> nat list" where
  "adapters_of a = adapter_ids (plugins (agent_kernel a))"

text \<open>The adapters stopped, in order.\<close>

fun stopped :: "adapter_event list \<Rightarrow> nat list" where
  "stopped [] = []"
| "stopped (Started h # es) = stopped es"
| "stopped (Stopped h # es) = h # stopped es"


section \<open>Sample inputs\<close>

text \<open>
  An environment with both connection settings; libraries that build and launch
  without error and stream \<^verbatim>\<open>"Hello, "\<close> then \<^verbatim>\<open>"world!"\<close>, or nothing; a library whose
  subprocess launch fails; one whose constructor refuses an endpoint that is no URL; an empty disk, one that refuses the report file, and one
  that holds an earlier report; a report with a surrogate code point in it.
\<close>

definition env_configured :: "string \<rightharpoonup> string" where
  "env_configured =
     [''AZURE_OPENAI_ENDPOINT'' \<mapsto> ''https://aoai.example/'', ''AZURE_OPENAI_API_KEY'' \<mapsto> ''secret'']"

definition hello_stream :: "pyval list" where
  "hello_stream =
     [PyObj [(''content'', PyObj [(''content'', PyStr ''Hello, '')] ''Hello, '')] ''item'',
      PyObj [(''content'', PyStr ''world!'')] ''world!'']"

definition silent_stream :: "pyval list" where
  "silent_stream = []"

definition lib_hello :: library where
  "lib_hello = \<lparr>azure_chat_completion = (\<lambda>svc. None), mcp_aenter = (\<lambda>h. None),
                 add_plugin_none = ValueError ''plugin or parent_directory must be provided.'',
                 agent_invoke = (\<lambda>n a m. (hello_stream, None))\<rparr>"

definition lib_silent :: library where
  "lib_silent = \<lparr>azure_chat_completion = (\<lambda>svc. None), mcp_aenter = (\<lambda>h. None),
                  add_plugin_none = ValueError ''plugin or parent_directory must be provided.'',
                  agent_invoke = (\<lambda>n a m. (silent_stream, None))\<rparr>"

definition lib_no_npx :: library where
  "lib_no_npx = \<lparr>azure_chat_completion = (\<lambda>svc. None),
                  mcp_aenter = (\<lambda>h. Some (ExternalError ''npx: command not found'')),
                  add_plugin_none = ValueError ''plugin or parent_directory must be provided.'',
                  agent_invoke = (\<lambda>n a m. ([], None))\<rparr>"

definition lib_strict :: library where
  "lib_strict = \<lparr>azure_chat_completion =
                    (\<lambda>svc. if svc_endpoint svc = Some ''not a url''
                           then Some (ExternalError ''ServiceInitializationError'') else None),
                  mcp_aenter = (\<lambda>h. None),
                  add_plugin_none = ValueError ''plugin or parent_directory must be provided.'',
                  agent_invoke = (\<lambda>n a m. ([], None))\<rparr>"

definition disk_empty :: os_state where
  "disk_empty = \<lparr>dirs = {}, files = Map.empty, denied = {}, disk_full = False, stdout = []\<rparr>"

definition disk_read_only :: os_state where
  "disk_read_only = \<lparr>dirs = {''./ClusterReports/''}, files = Map.empty,
                      denied = {''./ClusterReports/cluster_summary.md''}, disk_full = False,
                      stdout = []\<rparr>"

definition disk_with_report :: os_state where
  "disk_with_report = \<lparr>dirs = {''./ClusterReports/''},
                        files = [''./ClusterReports/cluster_summary.md'' \<mapsto> ''# old''],
                        denied = {}, disk_full = False, stdout = []\<rparr>"

definition report_with_surrogate :: py_str where
  "report_with_surrogate = py_text ''# new '' @ [Surrogate 0xDC80]"

section \<open>The report plugin and the file writer\<close>

lemma os_path_join_neq: "b \<noteq> [] \<Longrightarrow> hd b \<noteq> CHR ''/'' \<Longrightarrow> os_path_join a b \<noteq> a"
  by (auto simp: os_path_join_def)

lemma report_path_neq_dir: "report_path env \<noteq> REPORT_DIR env"
  unfolding report_path_def by (rule os_path_join_neq) simp_all

lemma utf8_encode_py_text: "utf8_encode (py_text bs) = Some bs"
  by (induction bs) (simp_all add: py_text_def)

lemma makedirs_ok:
  "d \<noteq> [] \<Longrightarrow> d \<in> dirs s \<or> (files s d = None \<and> d \<notin> denied s) \<Longrightarrow>
   os_makedirs d s = (Inr (), s\<lparr>dirs := insert d (dirs s)\<rparr>)"
  by (auto simp: os_makedirs_def insert_absorb)

lemma print_fields:
  "dirs (print l s) = dirs s" "files (print l s) = files s" "denied (print l s) = denied s"
  "disk_full (print l s) = disk_full s" "stdout (print l s) = stdout s @ [l]"
  by (simp_all add: print_def)

lemma write_ok:
  "path \<notin> denied s \<Longrightarrow> path \<notin> dirs s \<Longrightarrow> \<not> disk_full s \<Longrightarrow> utf8_encode c = Some data \<Longrightarrow>
   write_to_file_md path c s =
     (Inr (), print (''Successfully wrote content to '' @ path) (s\<lparr>files := (files s)(path \<mapsto> data)\<rparr>))"
  by (simp add: write_to_file_md_def open_w_def file_write_def)

lemma write_unencodable:
  "path \<notin> denied s \<Longrightarrow> path \<notin> dirs s \<Longrightarrow> utf8_encode c = None \<Longrightarrow>
   fst (write_to_file_md path c s) = Inl (UnicodeEncodeError ''surrogates not allowed'') \<and>
   files (snd (write_to_file_md path c s)) = (files s)(path \<mapsto> []) \<and>
   dirs (snd (write_to_file_md path c s)) = dirs s"
  by (simp add: write_to_file_md_def open_w_def file_write_def print_fields)

lemma gcs_ok:
  assumes "storage_accepts env s" and enc: "utf8_encode c = Some data"
  shows "generate_cluster_summary env c True s =
     (Inr (py_text (confirmation (report_path env))),
      print (''Successfully wrote content to '' @ report_path env)
        (s\<lparr>dirs := insert (REPORT_DIR env) (dirs s),
           files := (files s)(report_path env \<mapsto> data)\<rparr>))"
proof -
  from assms have d: "REPORT_DIR env \<noteq> []"
    and e: "REPORT_DIR env \<in> dirs s \<or> (files s (REPORT_DIR env) = None \<and> REPORT_DIR env \<notin> denied s)"
    and w: "report_path env \<notin> denied s" "report_path env \<notin> dirs s" "\<not> disk_full s"
    by (auto simp: storage_accepts_def)
  let ?s1 = "s\<lparr>dirs := insert (REPORT_DIR env) (dirs s)\<rparr>"
  have m: "os_makedirs (REPORT_DIR env) s = (Inr (), ?s1)" by (rule makedirs_ok [OF d e])
  have "report_path env \<notin> denied ?s1" "report_path env \<notin> dirs ?s1" "\<not> disk_full ?s1"
    using w report_path_neq_dir by auto
  from write_ok [OF this enc]
  have "write_to_file_md (report_path env) c ?s1 =
     (Inr (), print (''Successfully wrote content to '' @ report_path env)
        (s\<lparr>dirs := insert (REPORT_DIR env) (dirs s),
           files := (files s)(report_path env \<mapsto> data)\<rparr>))"
    by simp
  with m show ?thesis
    unfolding generate_cluster_summary_def report_path_def [symmetric] Let_def
    by (simp only: if_True prod.case sum.case select_convs update_convs simp_thms)
qed

lemma gcs_accepts_after:
  "storage_accepts env s \<Longrightarrow> utf8_encode c = Some data \<Longrightarrow>
   storage_accepts env (snd (generate_cluster_summary env c True s))"
  using report_path_neq_dir [of env]
  by (auto simp: gcs_ok storage_accepts_def print_fields)

lemma gcs_unencodable:
  assumes "storage_accepts env s" and enc: "utf8_encode c = None"
  shows "fst (generate_cluster_summary env c True s) = Inl (UnicodeEncodeError ''surrogates not allowed'') \<and>
         files (snd (generate_cluster_summary env c True s)) = (files s)(report_path env \<mapsto> [])"
proof -
  from assms have d: "REPORT_DIR env \<noteq> []"
    and e: "REPORT_DIR env \<in> dirs s \<or> (files s (REPORT_DIR env) = None \<and> REPORT_DIR env \<notin> denied s)"
    and w: "report_path env \<notin> denied s" "report_path env \<notin> dirs s"
    by (auto simp: storage_accepts_def)
  let ?s1 = "s\<lparr>dirs := insert (REPORT_DIR env) (dirs s)\<rparr>"
  have m: "os_makedirs (REPORT_DIR env) s = (Inr (), ?s1)" by (rule makedirs_ok [OF d e])
  have "report_path env \<notin> denied ?s1" "report_path env \<notin> dirs ?s1"
    using w report_path_neq_dir by auto
  from write_unencodable [OF this enc] m show ?thesis
    unfolding generate_cluster_summary_def report_path_def [symmetric] Let_def
    by (auto split: prod.splits sum.splits)
qed

lemma makedirs_fail:
  "d = [] \<or> (d \<notin> dirs s \<and> (files s d \<noteq> None \<or> d \<in> denied s)) \<Longrightarrow>
   \<exists>m. os_makedirs d s = (Inl (OSError m), s)"
  by (auto simp: os_makedirs_def)

lemma write_fail:
  "path \<in> denied s \<or> path \<in> dirs s \<or> disk_full s \<Longrightarrow>
   \<exists>e. fst (write_to_file_md path c s) = Inl e \<and>
       ((\<exists>m. e = OSError m) \<or> (\<exists>m. e = UnicodeEncodeError m)) \<and>
       (utf8_encode c \<noteq> None \<longrightarrow> (\<exists>m. e = OSError m))"
  by (auto simp: write_to_file_md_def open_w_def file_write_def split: option.splits)

lemma gcs_fail:
  assumes "\<not> storage_accepts env s"
  shows "\<exists>e. fst (generate_cluster_summary env c True s) = Inl e \<and>
       ((\<exists>m. e = OSError m) \<or> (\<exists>m. e = UnicodeEncodeError m)) \<and>
       (utf8_encode c \<noteq> None \<longrightarrow> (\<exists>m. e = OSError m))"
proof (cases "REPORT_DIR env \<noteq> [] \<and> (REPORT_DIR env \<in> dirs s \<or>
    (files s (REPORT_DIR env) = None \<and> REPORT_DIR env \<notin> denied s))")
  case False
  then obtain m where "os_makedirs (REPORT_DIR env) s = (Inl (OSError m), s)"
    using makedirs_fail [of "REPORT_DIR env" s] by blast
  then show ?thesis by (simp add: generate_cluster_summary_def)
next
  case True
  let ?s1 = "s\<lparr>dirs := insert (REPORT_DIR env) (dirs s)\<rparr>"
  from True have m: "os_makedirs (REPORT_DIR env) s = (Inr (), ?s1)"
    by (intro makedirs_ok) auto
  from True assms have "report_path env \<in> denied s \<or> report_path env \<in> dirs s \<or> disk_full s"
    by (auto simp: storage_accepts_def)
  then have "report_path env \<in> denied ?s1 \<or> report_path env \<in> dirs ?s1 \<or> disk_full ?s1"
    by auto
  from write_fail [OF this, of c] obtain e where
    "fst (write_to_file_md (report_path env) c ?s1) = Inl e"
    "(\<exists>m. e = OSError m) \<or> (\<exists>m. e = UnicodeEncodeError m)"
    "utf8_encode c \<noteq> None \<longrightarrow> (\<exists>m. e = OSError m)" by blast
  with m show ?thesis
    unfolding generate_cluster_summary_def report_path_def [symmetric] Let_def
    by (auto split: prod.splits sum.splits)
qed

lemma report_path_default: "report_path Map.empty = ''./ClusterReports/cluster_summary.md''"
  by (simp add: report_path_def REPORT_DIR_def os_path_join_def)

lemma report_path_shape:
  "REPORT_DIR env \<noteq> [] \<Longrightarrow>
   report_path env = REPORT_DIR env @ (if last (REPORT_DIR env) = CHR ''/'' then [] else ''/'') @ ''cluster_summary.md''"
  by (simp add: report_path_def os_path_join_def)

lemma reply_texts_nonempty: "no_response_msg \<noteq> []" "error_prefix \<noteq> []" "not_initialized_msg \<noteq> []"
  by (simp_all add: no_response_msg_def error_prefix_def not_initialized_msg_def cross_mark_def)

section \<open>The agent factory and the message handler\<close>

lemma create_begin_config_error:
  "\<not> truthy (py_or e (getenv (environ p) ''AZURE_OPENAI_ENDPOINT'')) \<or>
   \<not> truthy (py_or k (getenv (environ p) ''AZURE_OPENAI_API_KEY'')) \<Longrightarrow>
   create_begin lib i d e k p = (Inl (ValueError config_error_msg), p)"
  by (simp add: create_begin_def Let_def)

lemma create_config_error:
  "\<not> truthy (py_or e (getenv (environ p) ''AZURE_OPENAI_ENDPOINT'')) \<or>
   \<not> truthy (py_or k (getenv (environ p) ''AZURE_OPENAI_API_KEY'')) \<Longrightarrow>
   create_kubernetes_discovery_agent lib i d e k p = (Inl (ValueError config_error_msg), p)"
  by (simp add: create_kubernetes_discovery_agent_def create_begin_config_error)

lemma create_begin_constructor_error:
  "truthy (py_or e (getenv (environ p) ''AZURE_OPENAI_ENDPOINT'')) \<Longrightarrow>
   truthy (py_or k (getenv (environ p) ''AZURE_OPENAI_API_KEY'')) \<Longrightarrow>
   azure_chat_completion lib (completion_service d e k (environ p)) = Some err \<Longrightarrow>
   create_begin lib i d e k p = (Inl err, p)"
  by (simp add: create_begin_def Let_def completion_service_def)

lemma create_begin_success:
  assumes "create_begin lib i d e k p = (Inr fr, p1)"
  shows "p1 = p\<lparr>kube_discovery_plugin := Some (fr_entering fr), next_id := Suc (next_id p)\<rparr>"
    and "mcp_id (fr_entering fr) = next_id p"
    and "fr_kernel fr = \<lparr>services = [completion_service d e k (environ p)], plugins = []\<rparr>"
    and "truthy (py_or e (getenv (environ p) ''AZURE_OPENAI_ENDPOINT''))"
    and "truthy (py_or k (getenv (environ p) ''AZURE_OPENAI_API_KEY''))"
    and "azure_chat_completion lib (completion_service d e k (environ p)) = None"
  using assms
  by (auto simp: create_begin_def Let_def completion_service_def split: option.splits if_splits)

lemma create_begin_runs:
  "truthy (py_or e (getenv (environ p) ''AZURE_OPENAI_ENDPOINT'')) \<Longrightarrow>
   truthy (py_or k (getenv (environ p) ''AZURE_OPENAI_API_KEY'')) \<Longrightarrow>
   azure_chat_completion lib (completion_service d e k (environ p)) = None \<Longrightarrow>
   \<exists>fr. create_begin lib i d e k p =
     (Inr fr, p\<lparr>kube_discovery_plugin := Some (fr_entering fr), next_id := Suc (next_id p)\<rparr>) \<and>
     mcp_id (fr_entering fr) = next_id p"
  by (simp add: create_begin_def Let_def completion_service_def)

lemma create_begin_failure:
  "create_begin lib i d e k p = (Inl err, p1) \<Longrightarrow> p1 = p"
  by (auto simp: create_begin_def Let_def split: option.splits if_splits)

lemma create_resume_frame:
  "environ (snd (create_resume lib fr p)) = environ p"
  "user_session (snd (create_resume lib fr p)) = user_session p"
  "pending (snd (create_resume lib fr p)) = pending p"
  "outbox (snd (create_resume lib fr p)) = outbox p"
  "invocations (snd (create_resume lib fr p)) = invocations p"
  "next_id (snd (create_resume lib fr p)) = next_id p"
  "kube_discovery_plugin (snd (create_resume lib fr p)) = kube_discovery_plugin p"
  by (simp_all add: create_resume_def Let_def split: option.splits)

lemma create_resume_success:
  assumes "create_resume lib fr p = (Inr a, p')"
  shows "\<exists>g. kube_discovery_plugin p = Some g \<and>
             adapters_of a = adapter_ids (plugins (fr_kernel fr)) @ [mcp_id g]"
    and "adapter_events p' = adapter_events p @ [Started (mcp_id (fr_entering fr))]"
    and "mcp_aenter lib (mcp_id (fr_entering fr)) = None"
    and "services (agent_kernel a) = services (fr_kernel fr)"
proof -
  have app: "\<And>xs ys. adapter_ids (xs @ ys) = adapter_ids xs @ adapter_ids ys"
  proof -
    fix xs ys :: "(string \<times> plugin) list"
    show "adapter_ids (xs @ ys) = adapter_ids xs @ adapter_ids ys"
      by (induction xs rule: adapter_ids.induct) simp_all
  qed
  show "\<exists>g. kube_discovery_plugin p = Some g \<and>
             adapters_of a = adapter_ids (plugins (fr_kernel fr)) @ [mcp_id g]"
    using assms by (auto simp: create_resume_def Let_def adapters_of_def app split: option.splits)
  show "adapter_events p' = adapter_events p @ [Started (mcp_id (fr_entering fr))]"
    using assms by (auto simp: create_resume_def Let_def split: option.splits)
  show "mcp_aenter lib (mcp_id (fr_entering fr)) = None"
    using assms by (auto simp: create_resume_def Let_def split: option.splits)
  show "services (agent_kernel a) = services (fr_kernel fr)"
    using assms by (auto simp: create_resume_def Let_def split: option.splits)
qed

lemma create_resume_stopped:
  "stopped (adapter_events (snd (create_resume lib fr p))) = stopped (adapter_events p)"
proof -
  have app: "\<And>xs ys. stopped (xs @ ys) = stopped xs @ stopped ys"
  proof -
    fix xs ys :: "adapter_event list"
    show "stopped (xs @ ys) = stopped xs @ stopped ys"
      by (induction xs rule: stopped.induct) simp_all
  qed
  show ?thesis
    by (simp add: create_resume_def Let_def app split: option.splits)
qed

lemma create_frame:
  "environ (snd (create_kubernetes_discovery_agent lib i d e k p)) = environ p"
  "user_session (snd (create_kubernetes_discovery_agent lib i d e k p)) = user_session p"
  "pending (snd (create_kubernetes_discovery_agent lib i d e k p)) = pending p"
  "outbox (snd (create_kubernetes_discovery_agent lib i d e k p)) = outbox p"
  "invocations (snd (create_kubernetes_discovery_agent lib i d e k p)) = invocations p"
  "stopped (adapter_events (snd (create_kubernetes_discovery_agent lib i d e k p))) = stopped (adapter_events p)"
proof -
  obtain r p1 where b: "create_begin lib i d e k p = (r, p1)" by (cases "create_begin lib i d e k p")
  show "environ (snd (create_kubernetes_discovery_agent lib i d e k p)) = environ p"
    "user_session (snd (create_kubernetes_discovery_agent lib i d e k p)) = user_session p"
    "pending (snd (create_kubernetes_discovery_agent lib i d e k p)) = pending p"
    "outbox (snd (create_kubernetes_discovery_agent lib i d e k p)) = outbox p"
    "invocations (snd (create_kubernetes_discovery_agent lib i d e k p)) = invocations p"
    "stopped (adapter_events (snd (create_kubernetes_discovery_agent lib i d e k p))) = stopped (adapter_events p)"
    using b create_begin_failure [of lib i d e k p _ p1] create_begin_success(1) [of lib i d e k p _ p1]
    by (cases r; simp add: create_kubernetes_discovery_agent_def create_resume_frame create_resume_stopped)+
qed

lemma create_next_id:
  "next_id p \<le> next_id (snd (create_kubernetes_discovery_agent lib i d e k p))"
proof -
  obtain r p1 where b: "create_begin lib i d e k p = (r, p1)" by (cases "create_begin lib i d e k p")
  show ?thesis
    using b create_begin_failure [of lib i d e k p _ p1] create_begin_success(1) [of lib i d e k p _ p1]
    by (cases r) (simp_all add: create_kubernetes_discovery_agent_def create_resume_frame)
qed

lemma create_success:
  assumes "create_kubernetes_discovery_agent lib i d e k p = (Inr a, p')"
  shows "adapters_of a = [next_id p]"
    and "next_id p' = Suc (next_id p)"
    and "map_option mcp_id (kube_discovery_plugin p') = Some (next_id p)"
    and "adapter_events p' = adapter_events p @ [Started (next_id p)]"
    and "truthy (py_or e (getenv (environ p) ''AZURE_OPENAI_ENDPOINT''))"
    and "truthy (py_or k (getenv (environ p) ''AZURE_OPENAI_API_KEY''))"
    and "mcp_aenter lib (next_id p) = None"
    and "svc_endpoint (hd (services (agent_kernel a))) = py_or e (getenv (environ p) ''AZURE_OPENAI_ENDPOINT'')"
    and "svc_api_key (hd (services (agent_kernel a))) = py_or k (getenv (environ p) ''AZURE_OPENAI_API_KEY'')"
    and "azure_chat_completion lib (completion_service d e k (environ p)) = None"
    and "services (agent_kernel a) = [completion_service d e k (environ p)]"
proof -
  from assms obtain fr p1 where b: "create_begin lib i d e k p = (Inr fr, p1)"
    and r: "create_resume lib fr p1 = (Inr a, p')"
    by (auto simp: create_kubernetes_discovery_agent_def split: prod.splits sum.splits)
  note bs = create_begin_success [OF b]
  note rs = create_resume_success [OF r]
  have p': "p' = snd (create_resume lib fr p1)" using r by simp
  show "adapters_of a = [next_id p]" using rs(1) bs(1,2,3) by auto
  show "next_id p' = Suc (next_id p)" unfolding p' using bs(1) by (simp add: create_resume_frame)
  show "map_option mcp_id (kube_discovery_plugin p') = Some (next_id p)"
    unfolding p' using bs(1,2) by (simp add: create_resume_frame)
  show "adapter_events p' = adapter_events p @ [Started (next_id p)]" using rs(2) bs(1,2) by simp
  show "truthy (py_or e (getenv (environ p) ''AZURE_OPENAI_ENDPOINT''))" by (rule bs(4))
  show "truthy (py_or k (getenv (environ p) ''AZURE_OPENAI_API_KEY''))" by (rule bs(5))
  show "mcp_aenter lib (next_id p) = None" using rs(3) bs(2) by simp
  show "azure_chat_completion lib (completion_service d e k (environ p)) = None" by (rule bs(6))
  show svc: "services (agent_kernel a) = [completion_service d e k (environ p)]"
    using rs(4) bs(3) by simp
  show "svc_endpoint (hd (services (agent_kernel a))) = py_or e (getenv (environ p) ''AZURE_OPENAI_ENDPOINT'')"
    by (simp add: svc completion_service_def)
  show "svc_api_key (hd (services (agent_kernel a))) = py_or k (getenv (environ p) ''AZURE_OPENAI_API_KEY'')"
    by (simp add: svc completion_service_def)
qed

lemma create_runs:
  assumes "truthy (py_or e (getenv (environ p) ''AZURE_OPENAI_ENDPOINT''))"
    and "truthy (py_or k (getenv (environ p) ''AZURE_OPENAI_API_KEY''))"
    and "azure_chat_completion lib (completion_service d e k (environ p)) = None"
    and "mcp_aenter lib (next_id p) = None"
  shows "\<exists>a. fst (create_kubernetes_discovery_agent lib i d e k p) = Inr a"
proof -
  from create_begin_runs [OF assms(1-3), of i] obtain fr where
    "create_begin lib i d e k p =
       (Inr fr, p\<lparr>kube_discovery_plugin := Some (fr_entering fr), next_id := Suc (next_id p)\<rparr>)"
    "mcp_id (fr_entering fr) = next_id p" by blast
  with assms(4) show ?thesis
    by (simp add: create_kubernetes_discovery_agent_def create_resume_def Let_def)
qed

lemma create_constructor_fails:
  assumes "truthy (py_or e (getenv (environ p) ''AZURE_OPENAI_ENDPOINT''))"
    and "truthy (py_or k (getenv (environ p) ''AZURE_OPENAI_API_KEY''))"
    and "azure_chat_completion lib (completion_service d e k (environ p)) = Some err"
  shows "create_kubernetes_discovery_agent lib i d e k p = (Inl err, p)"
  using create_begin_constructor_error [OF assms, of i]
  by (simp add: create_kubernetes_discovery_agent_def)

lemma create_launch_fails:
  assumes "truthy (py_or e (getenv (environ p) ''AZURE_OPENAI_ENDPOINT''))"
    and "truthy (py_or k (getenv (environ p) ''AZURE_OPENAI_API_KEY''))"
    and "azure_chat_completion lib (completion_service d e k (environ p)) = None"
    and "mcp_aenter lib (next_id p) = Some err"
  shows "fst (create_kubernetes_discovery_agent lib i d e k p) = Inl err"
proof -
  from create_begin_runs [OF assms(1-3), of i] obtain fr where
    "create_begin lib i d e k p =
       (Inr fr, p\<lparr>kube_discovery_plugin := Some (fr_entering fr), next_id := Suc (next_id p)\<rparr>)"
    "mcp_id (fr_entering fr) = next_id p" by blast
  with assms(4) show ?thesis
    by (simp add: create_kubernetes_discovery_agent_def create_resume_def Let_def)
qed

lemma create_failure_origin:
  assumes "truthy (py_or e (getenv (environ p) ''AZURE_OPENAI_ENDPOINT''))"
    and "truthy (py_or k (getenv (environ p) ''AZURE_OPENAI_API_KEY''))"
    and "fst (create_kubernetes_discovery_agent lib i d e k p) = Inl err"
  shows "(\<exists>svc. azure_chat_completion lib svc = Some err) \<or> mcp_aenter lib (next_id p) = Some err"
proof (cases "azure_chat_completion lib (completion_service d e k (environ p))")
  case (Some err')
  from create_constructor_fails [OF assms(1,2) Some, of i] assms(3) show ?thesis
    using Some by auto
next
  case None
  show ?thesis
  proof (cases "mcp_aenter lib (next_id p)")
    case (Some err')
    from create_launch_fails [OF assms(1,2) None Some, of i] assms(3) Some show ?thesis by simp
  next
    case n: None
    from create_runs [OF assms(1,2) None n, of i] assms(3) show ?thesis by auto
  qed
qed

lemma py_or_empty: "py_or (Some []) b = py_or None b"
  by (simp add: py_or_def truthy_def)

lemma create_empty_args:
  "create_kubernetes_discovery_agent lib i d (Some []) k p = create_kubernetes_discovery_agent lib i d None k p"
  "create_kubernetes_discovery_agent lib i d e (Some []) p = create_kubernetes_discovery_agent lib i d e None p"
  "create_kubernetes_discovery_agent lib i (Some []) e k p = create_kubernetes_discovery_agent lib i None e k p"
  "create_kubernetes_discovery_agent lib (Some []) d e k p = create_kubernetes_discovery_agent lib None d e k p"
  by (simp_all add: create_kubernetes_discovery_agent_def create_begin_def py_or_empty cong: if_cong)

lemma accumulate_concat: "accumulate acc rs = acc @ concat (map item_text rs)"
  by (induction rs arbitrary: acc) simp_all

lemma send_fields:
  "outbox (send sid c p) = outbox p @ [(sid, c)]"
  "user_session (send sid c p) = user_session p"
  "pending (send sid c p) = pending p"
  "environ (send sid c p) = environ p"
  "next_id (send sid c p) = next_id p"
  "kube_discovery_plugin (send sid c p) = kube_discovery_plugin p"
  "adapter_events (send sid c p) = adapter_events p"
  "invocations (send sid c p) = invocations p"
  by (simp_all add: send_def)

lemma on_message_no_agent:
  "user_session p sid = None \<Longrightarrow>
   on_message lib sid content p = (Inr (), send sid not_initialized_msg p)"
  by (simp add: on_message_def)

lemma on_message_raised:
  "user_session p sid = Some a \<Longrightarrow>
   agent_invoke lib (length (invocations p)) a content = (items, Some e) \<Longrightarrow>
   on_message lib sid content p =
     (Inr (), send sid (error_prefix @ str_exc e) (p\<lparr>invocations := invocations p @ [(sid, content)]\<rparr>))"
  by (simp add: on_message_def on_message_try_def Let_def)

lemma on_message_finished:
  "user_session p sid = Some a \<Longrightarrow>
   agent_invoke lib (length (invocations p)) a content = (items, None) \<Longrightarrow>
   on_message lib sid content p =
     (Inr (), send sid (if concat (map item_text items) \<noteq> [] then concat (map item_text items)
                       else no_response_msg)
         (p\<lparr>invocations := invocations p @ [(sid, content)]\<rparr>))"
  by (simp add: on_message_def on_message_try_def Let_def accumulate_concat)

lemma on_message_returns: "fst (on_message lib sid content p) = Inr ()"
  by (simp add: on_message_def split: option.splits prod.splits sum.splits)

lemma on_message_frame:
  "user_session (snd (on_message lib sid content p)) = user_session p"
  "environ (snd (on_message lib sid content p)) = environ p"
  "next_id (snd (on_message lib sid content p)) = next_id p"
  "kube_discovery_plugin (snd (on_message lib sid content p)) = kube_discovery_plugin p"
  "adapter_events (snd (on_message lib sid content p)) = adapter_events p"
  "pending (snd (on_message lib sid content p)) = pending p"
  by (auto simp: on_message_def on_message_try_def Let_def send_fields
      split: option.splits prod.splits sum.splits if_splits)

section \<open>Runs of the session host\<close>

lemmas run_defs = start_def start_begin_def start_resume_def create_kubernetes_discovery_agent_def
  create_begin_def create_resume_def
  on_message_def on_message_try_def send_def boot_def env_configured_def Let_def
  py_or_def truthy_def getenv_def getenv_default_def

lemma stopped_append: "stopped (xs @ ys) = stopped xs @ stopped ys"
  by (induction xs rule: stopped.induct) simp_all

lemma start_fields:
  "environ (snd (start lib sid p)) = environ p"
  "stopped (adapter_events (snd (start lib sid p))) = stopped (adapter_events p)"
  "next_id p \<le> next_id (snd (start lib sid p))"
  using create_frame(1,6) [of lib None None None None p] create_next_id [of p lib None None None None]
  by (auto simp: start_def send_fields split: prod.splits sum.splits)

lemma start_begin_fields:
  "environ (snd (start_begin lib sid p)) = environ p"
  "stopped (adapter_events (snd (start_begin lib sid p))) = stopped (adapter_events p)"
proof -
  obtain r p1 where b: "create_begin lib None None None None p = (r, p1)"
    by (cases "create_begin lib None None None None p")
  show "environ (snd (start_begin lib sid p)) = environ p"
    "stopped (adapter_events (snd (start_begin lib sid p))) = stopped (adapter_events p)"
    using b create_begin_failure [of lib None None None None p _ p1]
      create_begin_success(1) [of lib None None None None p _ p1]
    by (cases r; simp add: start_begin_def)+
qed

lemma start_resume_fields:
  "environ (snd (start_resume lib sid p)) = environ p"
  "stopped (adapter_events (snd (start_resume lib sid p))) = stopped (adapter_events p)"
proof -
  show "environ (snd (start_resume lib sid p)) = environ p"
  proof (cases "pending p sid")
    case None then show ?thesis by (simp add: start_resume_def)
  next
    case (Some fr)
    then show ?thesis
      using create_resume_frame(1) [of lib fr "p\<lparr>pending := (pending p)(sid := None)\<rparr>"]
      by (auto simp: start_resume_def send_fields split: prod.splits sum.splits)
  qed
  show "stopped (adapter_events (snd (start_resume lib sid p))) = stopped (adapter_events p)"
  proof (cases "pending p sid")
    case None then show ?thesis by (simp add: start_resume_def)
  next
    case (Some fr)
    then show ?thesis
      using create_resume_stopped [of lib fr "p\<lparr>pending := (pending p)(sid := None)\<rparr>"]
      by (auto simp: start_resume_def send_fields split: prod.splits sum.splits)
  qed
qed



lemma start_phases_agree:
  assumes "pending p sid = None"
  shows "host_run lib [StartBegins sid, StartResumes sid] p = host_run lib [ChatStart sid] p"
proof (cases "create_begin lib None None None None p")
  case (Pair r p1)
  show ?thesis
  proof (cases r)
    case (Inl e)
    with Pair have p1: "p1 = p" by (auto dest: create_begin_failure)
    with Pair Inl assms show ?thesis
      by (simp add: start_def start_begin_def start_resume_def create_kubernetes_discovery_agent_def)
  next
    case (Inr fr)
    with Pair have "pending p1 = pending p" by (auto dest: create_begin_success(1))
    with assms have "(pending p1)(sid := None) = pending p1"
      by (metis fun_upd_idem_iff)
    with Pair Inr show ?thesis
      by (simp add: start_def start_begin_def start_resume_def create_kubernetes_discovery_agent_def)
  qed
qed







lemma step_fields:
  "environ (host_step lib ev p) = environ p"
  "stopped (adapter_events (host_step lib ev p)) = stopped (adapter_events p)"
  by (cases ev; simp add: start_fields start_begin_fields start_resume_fields on_message_frame)+

lemma run_fields:
  "environ (host_run lib es p) = environ p"
  "stopped (adapter_events (host_run lib es p)) = stopped (adapter_events p)"
  by (induction es arbitrary: p; simp add: step_fields)+

section \<open>The report plugin\<close>

text \<open>
  Claim C2. For every content string, \<^verbatim>\<open>generate_cluster_summary(content, save_file=False)\<close>
  returns exactly the content, and nothing else happens: no directory is made, no file
  is opened or written, nothing is printed (the operating system's state is the one
  before the call).
\<close>

theorem generate_cluster_summary_inline:
  "generate_cluster_summary env content False s = (Inr content, s)"
  by (simp add: generate_cluster_summary_def)

text \<open>
  Claim C3, amended. For content that UTF-8 can encode, when storage lets the report
  through, \<^verbatim>\<open>generate_cluster_summary(c1, True)\<close> returns the confirmation that names the
  report path; the path is the report directory, a slash unless the directory's name
  ends in one, and \<^verbatim>\<open>cluster_summary.md\<close>; afterwards the report directory exists (made
  if it was absent, left alone if it was there) and the files are those of before with
  the report file holding the encoded \<open>c1\<close>. A second call with \<open>c2\<close> succeeds as well,
  leaves the directories as they were and the report file holding the encoded \<open>c2\<close>
  alone: the first content is replaced, not extended, and no other file appears.
\<close>

theorem generate_cluster_summary_saves:
  assumes "storage_accepts env s"
    and "utf8_encode c1 = Some b1"
    and "utf8_encode c2 = Some b2"
  shows "fst (generate_cluster_summary env c1 True s) =
           Inr (py_text (''Cluster summary document generated: '' @ [CHR 0x60] @ report_path env @
                         [CHR 0x60])) \<and>
         report_path env = REPORT_DIR env @ (if last (REPORT_DIR env) = CHR ''/'' then [] else ''/'') @
           ''cluster_summary.md'' \<and>
         dirs (snd (generate_cluster_summary env c1 True s)) = insert (REPORT_DIR env) (dirs s) \<and>
         files (snd (generate_cluster_summary env c1 True s)) = (files s)(report_path env \<mapsto> b1) \<and>
         fst (generate_cluster_summary env c2 True (snd (generate_cluster_summary env c1 True s))) =
           Inr (py_text (''Cluster summary document generated: '' @ [CHR 0x60] @ report_path env @
                         [CHR 0x60])) \<and>
         dirs (snd (generate_cluster_summary env c2 True (snd (generate_cluster_summary env c1 True s)))) =
           insert (REPORT_DIR env) (dirs s) \<and>
         files (snd (generate_cluster_summary env c2 True (snd (generate_cluster_summary env c1 True s)))) =
           (files s)(report_path env \<mapsto> b2)"
proof -
  let ?s1 = "snd (generate_cluster_summary env c1 True s)"
  have a1: "storage_accepts env ?s1" using assms(1,2) by (rule gcs_accepts_after)
  have d: "REPORT_DIR env \<noteq> []" using assms(1) by (simp add: storage_accepts_def)
  have r1: "fst (generate_cluster_summary env c1 True s) = Inr (py_text (confirmation (report_path env)))"
    and d1: "dirs ?s1 = insert (REPORT_DIR env) (dirs s)"
    and f1: "files ?s1 = (files s)(report_path env \<mapsto> b1)"
    by (simp_all add: gcs_ok [OF assms(1,2)] print_fields)
  have r2: "fst (generate_cluster_summary env c2 True ?s1) = Inr (py_text (confirmation (report_path env)))"
    and d2: "dirs (snd (generate_cluster_summary env c2 True ?s1)) = insert (REPORT_DIR env) (dirs ?s1)"
    and f2: "files (snd (generate_cluster_summary env c2 True ?s1)) = (files ?s1)(report_path env \<mapsto> b2)"
    by (simp_all add: gcs_ok [OF a1 assms(3)] print_fields)
  from r1 r2 d1 d2 f1 f2 report_path_shape [OF d] show ?thesis
    by (simp add: confirmation_def)
qed

text \<open>
  On an empty disk with the default report directory: the directory is made, and after
  two saves the one file \<^verbatim>\<open>./ClusterReports/cluster_summary.md\<close> holds the second
  content.
\<close>

theorem generate_cluster_summary_saves_witness:
  "storage_accepts Map.empty disk_empty \<and>
   utf8_encode (py_text ''# first'') = Some ''# first'' \<and>
   utf8_encode (py_text ''# second'') = Some ''# second'' \<and>
   fst (generate_cluster_summary Map.empty (py_text ''# first'') True disk_empty) =
     Inr (py_text (''Cluster summary document generated: '' @ [CHR 0x60] @
          ''./ClusterReports/cluster_summary.md'' @ [CHR 0x60])) \<and>
   dirs (snd (generate_cluster_summary Map.empty (py_text ''# first'') True disk_empty)) =
     {''./ClusterReports/''} \<and>
   files (snd (generate_cluster_summary Map.empty (py_text ''# second'') True
            (snd (generate_cluster_summary Map.empty (py_text ''# first'') True disk_empty)))) =
     [''./ClusterReports/cluster_summary.md'' \<mapsto> ''# second'']"
proof -
  have a: "storage_accepts Map.empty disk_empty"
    by (simp add: storage_accepts_def report_path_default disk_empty_def REPORT_DIR_def)
  from generate_cluster_summary_saves [OF a utf8_encode_py_text utf8_encode_py_text,
      of "''# first''" "''# second''"] a
  show ?thesis
    by (simp add: report_path_default REPORT_DIR_def disk_empty_def utf8_encode_py_text)
qed

text \<open>
  Claim C3 as stated fails on content with a surrogate code point: on a disk that
  accepts the report and holds an earlier one, the call raises \<^verbatim>\<open>UnicodeEncodeError\<close>,
  returns no confirmation, and leaves the report file empty.
\<close>

theorem unencodable_report_counterexample:
  "storage_accepts Map.empty disk_with_report \<and>
   files disk_with_report ''./ClusterReports/cluster_summary.md'' = Some ''# old'' \<and>
   fst (generate_cluster_summary Map.empty report_with_surrogate True disk_with_report) =
     Inl (UnicodeEncodeError ''surrogates not allowed'') \<and>
   files (snd (generate_cluster_summary Map.empty report_with_surrogate True disk_with_report))
     ''./ClusterReports/cluster_summary.md'' = Some []"
proof -
  have a: "storage_accepts Map.empty disk_with_report"
    by (simp add: storage_accepts_def report_path_default disk_with_report_def REPORT_DIR_def)
  have e: "utf8_encode report_with_surrogate = None"
    by (simp add: report_with_surrogate_def py_text_def)
  from gcs_unencodable [OF a e] a show ?thesis
    by (simp add: report_path_default disk_with_report_def)
qed

text \<open>
  Claim C8. When storage does not let the report through (the directory cannot be
  made, the file cannot be opened, or the data cannot be written), or the content
  cannot be encoded, \<^verbatim>\<open>generate_cluster_summary(c, True)\<close> raises the error to its caller
  and returns no confirmation: the operating system's error, or the codec's when the
  content cannot be encoded and nothing before the write had failed. The error is an
  ordinary exception: when \<^verbatim>\<open>agent.invoke\<close> lets it through to the message handler, the
  handler returns normally and the user is sent the error text.
\<close>

theorem generate_cluster_summary_write_failure:
  assumes "\<not> storage_accepts env s \<or> utf8_encode c = None"
  shows "\<exists>e. fst (generate_cluster_summary env c True s) = Inl e \<and>
          ((\<exists>m. e = OSError m) \<or> (\<exists>m. e = UnicodeEncodeError m)) \<and>
          (utf8_encode c \<noteq> None \<longrightarrow> (\<exists>m. e = OSError m)) \<and>
          (\<forall>lib sid a msg p items.
             user_session p sid = Some a \<longrightarrow>
             agent_invoke lib (length (invocations p)) a msg = (items, Some e) \<longrightarrow>
             fst (on_message lib sid msg p) = Inr () \<and>
             outbox (snd (on_message lib sid msg p)) = outbox p @ [(sid, error_prefix @ str_exc e)])"
proof -
  have "\<exists>e. fst (generate_cluster_summary env c True s) = Inl e \<and>
          ((\<exists>m. e = OSError m) \<or> (\<exists>m. e = UnicodeEncodeError m)) \<and>
          (utf8_encode c \<noteq> None \<longrightarrow> (\<exists>m. e = OSError m))"
  proof (cases "storage_accepts env s")
    case False
    then show ?thesis by (rule gcs_fail)
  next
    case True
    with assms have "utf8_encode c = None" by simp
    with gcs_unencodable [OF True this] show ?thesis by simp
  qed
  then obtain e where e: "fst (generate_cluster_summary env c True s) = Inl e"
    "(\<exists>m. e = OSError m) \<or> (\<exists>m. e = UnicodeEncodeError m)"
    "utf8_encode c \<noteq> None \<longrightarrow> (\<exists>m. e = OSError m)" by blast
  show ?thesis
  proof (intro exI [of _ e] conjI allI impI)
    show "fst (generate_cluster_summary env c True s) = Inl e" by (rule e(1))
    show "(\<exists>m. e = OSError m) \<or> (\<exists>m. e = UnicodeEncodeError m)" by (rule e(2))
  next
    assume "utf8_encode c \<noteq> None"
    with e(3) show "\<exists>m. e = OSError m" by simp
  next
    fix lib sid a msg p items
    show "fst (on_message lib sid msg p) = Inr ()" by (rule on_message_returns)
    assume "user_session p sid = Some a"
      and "agent_invoke lib (length (invocations p)) a msg = (items, Some e)"
    then show "outbox (snd (on_message lib sid msg p)) = outbox p @ [(sid, error_prefix @ str_exc e)]"
      by (simp add: on_message_raised send_fields)
  qed
qed

text \<open>A disk that refuses the report file: the call raises \<^verbatim>\<open>PermissionError\<close>.\<close>

theorem generate_cluster_summary_write_failure_witness:
  "\<not> storage_accepts Map.empty disk_read_only \<and>
   fst (generate_cluster_summary Map.empty (py_text ''# report'') True disk_read_only) =
     Inl (OSError ''PermissionError'')"
proof -
  have a: "\<not> storage_accepts Map.empty disk_read_only"
    by (simp add: storage_accepts_def report_path_default disk_read_only_def)
  from generate_cluster_summary_write_failure [of Map.empty disk_read_only "py_text ''# report''"] a
  show ?thesis
    by (simp add: generate_cluster_summary_def REPORT_DIR_def os_makedirs_def os_path_join_def
        write_to_file_md_def open_w_def disk_read_only_def)
qed

section \<open>The agent factory\<close>

text \<open>
  Claim C1, amended. Write E and K for the endpoint and the API key after the fallback
  from the argument to the environment, and S for the completion service the call
  constructs from its arguments and the environment. For a call during whose \<^verbatim>\<open>await\<close>
  no other handler runs:
  \<^item> When E or K is empty, \<^verbatim>\<open>create_kubernetes_discovery_agent\<close> raises the
    configuration \<^verbatim>\<open>ValueError\<close> before it reaches its \<^verbatim>\<open>await\<close> and leaves the process as it
    was: no MCP plugin is constructed, none is entered, the global is untouched.
  \<^item> The call returns an agent if and only if E and K are non-empty, the
    \<^verbatim>\<open>AzureChatCompletion\<close> constructor raises nothing on S, and \<^verbatim>\<open>__aenter__\<close> of the new
    plugin raises nothing.
  \<^item> When E and K are non-empty and the constructor raises on S, the call raises that
    exception and leaves the process as it was; when the constructor raises nothing
    and \<^verbatim>\<open>__aenter__\<close> raises, the call raises \<^verbatim>\<open>__aenter__\<close>'s exception.
\<close>

theorem create_outcome:
  "(\<not> truthy (py_or e (getenv (environ p) ''AZURE_OPENAI_ENDPOINT'')) \<or>
    \<not> truthy (py_or k (getenv (environ p) ''AZURE_OPENAI_API_KEY'')) \<longrightarrow>
      create_begin lib i d e k p = (Inl (ValueError config_error_msg), p) \<and>
      create_kubernetes_discovery_agent lib i d e k p = (Inl (ValueError config_error_msg), p)) \<and>
   ((\<exists>a. fst (create_kubernetes_discovery_agent lib i d e k p) = Inr a) \<longleftrightarrow>
      truthy (py_or e (getenv (environ p) ''AZURE_OPENAI_ENDPOINT'')) \<and>
      truthy (py_or k (getenv (environ p) ''AZURE_OPENAI_API_KEY'')) \<and>
      azure_chat_completion lib (completion_service d e k (environ p)) = None \<and>
      mcp_aenter lib (next_id p) = None) \<and>
   (\<forall>err. truthy (py_or e (getenv (environ p) ''AZURE_OPENAI_ENDPOINT'')) \<and>
      truthy (py_or k (getenv (environ p) ''AZURE_OPENAI_API_KEY'')) \<and>
      azure_chat_completion lib (completion_service d e k (environ p)) = Some err \<longrightarrow>
        create_kubernetes_discovery_agent lib i d e k p = (Inl err, p)) \<and>
   (\<forall>err. truthy (py_or e (getenv (environ p) ''AZURE_OPENAI_ENDPOINT'')) \<and>
      truthy (py_or k (getenv (environ p) ''AZURE_OPENAI_API_KEY'')) \<and>
      azure_chat_completion lib (completion_service d e k (environ p)) = None \<and>
      mcp_aenter lib (next_id p) = Some err \<longrightarrow>
        fst (create_kubernetes_discovery_agent lib i d e k p) = Inl err)"
proof (intro conjI impI allI iffI)
  assume h: "\<not> truthy (py_or e (getenv (environ p) ''AZURE_OPENAI_ENDPOINT'')) \<or>
    \<not> truthy (py_or k (getenv (environ p) ''AZURE_OPENAI_API_KEY''))"
  from h show "create_begin lib i d e k p = (Inl (ValueError config_error_msg), p)"
    by (rule create_begin_config_error)
  from h show "create_kubernetes_discovery_agent lib i d e k p = (Inl (ValueError config_error_msg), p)"
    by (rule create_config_error)
next
  assume "\<exists>a. fst (create_kubernetes_discovery_agent lib i d e k p) = Inr a"
  then obtain a p' where c: "create_kubernetes_discovery_agent lib i d e k p = (Inr a, p')"
    by (cases "create_kubernetes_discovery_agent lib i d e k p") auto
  show "truthy (py_or e (getenv (environ p) ''AZURE_OPENAI_ENDPOINT''))"
    by (rule create_success(5) [OF c])
  show "truthy (py_or k (getenv (environ p) ''AZURE_OPENAI_API_KEY''))"
    by (rule create_success(6) [OF c])
  show "azure_chat_completion lib (completion_service d e k (environ p)) = None"
    by (rule create_success(10) [OF c])
  show "mcp_aenter lib (next_id p) = None"
    by (rule create_success(7) [OF c])
next
  assume "truthy (py_or e (getenv (environ p) ''AZURE_OPENAI_ENDPOINT'')) \<and>
      truthy (py_or k (getenv (environ p) ''AZURE_OPENAI_API_KEY'')) \<and>
      azure_chat_completion lib (completion_service d e k (environ p)) = None \<and>
      mcp_aenter lib (next_id p) = None"
  then show "\<exists>a. fst (create_kubernetes_discovery_agent lib i d e k p) = Inr a"
    using create_runs [of e p k lib d i] by simp
next
  fix err
  assume "truthy (py_or e (getenv (environ p) ''AZURE_OPENAI_ENDPOINT'')) \<and>
      truthy (py_or k (getenv (environ p) ''AZURE_OPENAI_API_KEY'')) \<and>
      azure_chat_completion lib (completion_service d e k (environ p)) = Some err"
  then show "create_kubernetes_discovery_agent lib i d e k p = (Inl err, p)"
    using create_constructor_fails [of e p k lib d err i] by simp
next
  fix err
  assume "truthy (py_or e (getenv (environ p) ''AZURE_OPENAI_ENDPOINT'')) \<and>
      truthy (py_or k (getenv (environ p) ''AZURE_OPENAI_API_KEY'')) \<and>
      azure_chat_completion lib (completion_service d e k (environ p)) = None \<and>
      mcp_aenter lib (next_id p) = Some err"
  then show "fst (create_kubernetes_discovery_agent lib i d e k p) = Inl err"
    using create_launch_fails [of e p k lib d err i] by simp
qed

text \<open>
  The cases on concrete inputs: an empty environment; both settings with a constructor
  that accepts the service built (though not every service) and a launch that works;
  an endpoint the constructor refuses; a launch that fails.
\<close>

theorem create_outcome_witness:
  "create_kubernetes_discovery_agent lib_strict None None None None (boot Map.empty) =
     (Inl (ValueError config_error_msg), boot Map.empty) \<and>
   (\<exists>a. fst (create_kubernetes_discovery_agent lib_strict None None None None (boot env_configured)) = Inr a) \<and>
   azure_chat_completion lib_strict (completion_service None (Some ''not a url'') None env_configured) \<noteq> None \<and>
   create_kubernetes_discovery_agent lib_strict None None (Some ''not a url'') None (boot env_configured) =
     (Inl (ExternalError ''ServiceInitializationError''), boot env_configured) \<and>
   fst (create_kubernetes_discovery_agent lib_no_npx None None None None (boot env_configured)) =
     Inl (ExternalError ''npx: command not found'')"
  using create_outcome [of None "boot Map.empty" None lib_strict None None]
    create_outcome [of None "boot env_configured" None lib_strict None None]
    create_outcome [of "Some ''not a url''" "boot env_configured" None lib_strict None None]
    create_outcome [of None "boot env_configured" None lib_no_npx None None]
  by (simp add: boot_def env_configured_def py_or_def truthy_def getenv_def getenv_default_def
      lib_strict_def lib_no_npx_def completion_service_def)

text \<open>
  Claim C1 as stated fails: with the endpoint and the key both set, the call does not
  succeed when the subprocess cannot be launched; it raises the launch error.
\<close>

theorem create_nonempty_config_fails_counterexample:
  "truthy (py_or None (getenv (environ (boot env_configured)) ''AZURE_OPENAI_ENDPOINT'')) \<and>
   truthy (py_or None (getenv (environ (boot env_configured)) ''AZURE_OPENAI_API_KEY'')) \<and>
   fst (create_kubernetes_discovery_agent lib_no_npx None None None None (boot env_configured)) =
     Inl (ExternalError ''npx: command not found'')"
  by (simp add: run_defs lib_no_npx_def)

text \<open>
  Claim C10. An argument that is the empty string is an absent argument: the call with
  \<^verbatim>\<open>endpoint=""\<close> (or \<^verbatim>\<open>api_key=""\<close>, and likewise \<^verbatim>\<open>deployment_name=""\<close> or
  \<^verbatim>\<open>instructions=""\<close>) is the call without it, in result and in effect. With both settings
  non-empty in the environment, a call that passes two empty strings gets past the
  configuration check: if it raises, the exception is one the \<^verbatim>\<open>AzureChatCompletion\<close>
  constructor or \<^verbatim>\<open>__aenter__\<close> raised; if it returns an agent, the agent's completion
  service has the configured endpoint and key; and it returns one whenever the two
  library calls raise nothing.
\<close>

theorem create_empty_string_is_absent:
  "create_kubernetes_discovery_agent lib i d (Some []) k p =
     create_kubernetes_discovery_agent lib i d None k p \<and>
   create_kubernetes_discovery_agent lib i d e (Some []) p =
     create_kubernetes_discovery_agent lib i d e None p \<and>
   create_kubernetes_discovery_agent lib i (Some []) e k p =
     create_kubernetes_discovery_agent lib i None e k p \<and>
   create_kubernetes_discovery_agent lib (Some []) d e k p =
     create_kubernetes_discovery_agent lib None d e k p \<and>
   (truthy (getenv (environ p) ''AZURE_OPENAI_ENDPOINT'') \<and>
    truthy (getenv (environ p) ''AZURE_OPENAI_API_KEY'') \<longrightarrow>
      (\<forall>err. fst (create_kubernetes_discovery_agent lib i d (Some []) (Some []) p) = Inl err \<longrightarrow>
         (\<exists>svc. azure_chat_completion lib svc = Some err) \<or> mcp_aenter lib (next_id p) = Some err) \<and>
      (\<forall>a. fst (create_kubernetes_discovery_agent lib i d (Some []) (Some []) p) = Inr a \<longrightarrow>
         svc_endpoint (hd (services (agent_kernel a))) = getenv (environ p) ''AZURE_OPENAI_ENDPOINT'' \<and>
         svc_api_key (hd (services (agent_kernel a))) = getenv (environ p) ''AZURE_OPENAI_API_KEY'') \<and>
      ((\<forall>svc. azure_chat_completion lib svc = None) \<and> mcp_aenter lib (next_id p) = None \<longrightarrow>
         (\<exists>a. fst (create_kubernetes_discovery_agent lib i d (Some []) (Some []) p) = Inr a)))"
proof (intro conjI impI allI)
  show "create_kubernetes_discovery_agent lib i d (Some []) k p =
     create_kubernetes_discovery_agent lib i d None k p"
    by (rule create_empty_args(1))
  show "create_kubernetes_discovery_agent lib i d e (Some []) p =
     create_kubernetes_discovery_agent lib i d e None p"
    by (rule create_empty_args(2))
  show "create_kubernetes_discovery_agent lib i (Some []) e k p =
     create_kubernetes_discovery_agent lib i None e k p"
    by (rule create_empty_args(3))
  show "create_kubernetes_discovery_agent lib (Some []) d e k p =
     create_kubernetes_discovery_agent lib None d e k p"
    by (rule create_empty_args(4))
next
  fix err
  assume "truthy (getenv (environ p) ''AZURE_OPENAI_ENDPOINT'') \<and>
    truthy (getenv (environ p) ''AZURE_OPENAI_API_KEY'')"
    and "fst (create_kubernetes_discovery_agent lib i d (Some []) (Some []) p) = Inl err"
  then show "(\<exists>svc. azure_chat_completion lib svc = Some err) \<or> mcp_aenter lib (next_id p) = Some err"
    using create_failure_origin [of "Some []" p "Some []" lib i d err]
    by (simp add: py_or_def truthy_def)
next
  fix a
  assume "fst (create_kubernetes_discovery_agent lib i d (Some []) (Some []) p) = Inr a"
  then obtain p' where c: "create_kubernetes_discovery_agent lib i d (Some []) (Some []) p = (Inr a, p')"
    by (cases "create_kubernetes_discovery_agent lib i d (Some []) (Some []) p") auto
  show "svc_endpoint (hd (services (agent_kernel a))) = getenv (environ p) ''AZURE_OPENAI_ENDPOINT''"
    using create_success(8) [OF c] by (simp add: py_or_def truthy_def)
  show "svc_api_key (hd (services (agent_kernel a))) = getenv (environ p) ''AZURE_OPENAI_API_KEY''"
    using create_success(9) [OF c] by (simp add: py_or_def truthy_def)
next
  assume "truthy (getenv (environ p) ''AZURE_OPENAI_ENDPOINT'') \<and>
    truthy (getenv (environ p) ''AZURE_OPENAI_API_KEY'')"
    and "(\<forall>svc. azure_chat_completion lib svc = None) \<and> mcp_aenter lib (next_id p) = None"
  then show "\<exists>a. fst (create_kubernetes_discovery_agent lib i d (Some []) (Some []) p) = Inr a"
    using create_runs [of "Some []" p "Some []" lib d i]
    by (simp add: py_or_def truthy_def)
qed

text \<open>Two empty strings over a configured environment: the agent uses the configured values.\<close>

theorem create_empty_string_is_absent_witness:
  "truthy (getenv (environ (boot env_configured)) ''AZURE_OPENAI_ENDPOINT'') \<and>
   truthy (getenv (environ (boot env_configured)) ''AZURE_OPENAI_API_KEY'') \<and>
   (\<exists>a. fst (create_kubernetes_discovery_agent lib_hello None None (Some []) (Some [])
             (boot env_configured)) = Inr a \<and>
        svc_endpoint (hd (services (agent_kernel a))) = Some ''https://aoai.example/'' \<and>
        svc_api_key (hd (services (agent_kernel a))) = Some ''secret'')"
  using create_empty_string_is_absent [of lib_hello None None None "boot env_configured" None]
  by (simp add: run_defs lib_hello_def)

section \<open>The message handler\<close>

text \<open>
  Claim C4, amended. When the session has an agent and the stream of one
  \<^verbatim>\<open>agent.invoke\<close> call ends normally, \<^verbatim>\<open>on_message\<close> returns and sends one message: the
  texts of the streamed items joined in arrival order when that is not empty, and the
  fixed notice that no response was received when it is.
\<close>

theorem on_message_reply:
  assumes "user_session p sid = Some a"
    and "agent_invoke lib (length (invocations p)) a content = (items, None)"
  shows "fst (on_message lib sid content p) = Inr () \<and>
         outbox (snd (on_message lib sid content p)) =
           outbox p @ [(sid, if concat (map item_text items) \<noteq> [] then concat (map item_text items)
                             else no_response_msg)]"
  using assms by (simp add: on_message_finished send_fields)

text \<open>The stream \<^verbatim>\<open>"Hello, "\<close>, \<^verbatim>\<open>"world!"\<close> is delivered as \<^verbatim>\<open>"Hello, world!"\<close>.\<close>

theorem on_message_reply_witness:
  "concat (map item_text hello_stream) = ''Hello, world!'' \<and>
   outbox (snd (on_message lib_hello 1 ''hi'' (host_run lib_hello [ChatStart 1] (boot env_configured)))) =
     [(1, welcome_msg), (1, ''Hello, world!'')]"
  using on_message_reply [of "host_run lib_hello [ChatStart 1] (boot env_configured)" 1
      "the (user_session (host_run lib_hello [ChatStart 1] (boot env_configured)) 1)"
      lib_hello "''hi''" hello_stream]
  by (simp add: run_defs lib_hello_def hello_stream_def item_text_def)

text \<open>
  Claim C4 as stated fails on a stream with no items: what is delivered is not the
  (empty) concatenation.
\<close>

theorem empty_stream_reply_counterexample:
  "outbox (snd (on_message lib_silent 1 ''hi'' (host_run lib_silent [ChatStart 1] (boot env_configured)))) \<noteq>
     outbox (host_run lib_silent [ChatStart 1] (boot env_configured)) @
       [(1, concat (map item_text silent_stream))]"
  by (simp add: run_defs lib_silent_def silent_stream_def no_response_msg_def cross_mark_def)

text \<open>
  The handler's \<^verbatim>\<open>except\<close> clause: in a session that has an agent, whatever comes out of
  \<^verbatim>\<open>agent.invoke\<close>, \<^verbatim>\<open>on_message\<close> returns normally, sends exactly one non-empty text and
  leaves the session its agent; when an exception came out, the text is the error
  notice with the exception's message. What \<^verbatim>\<open>agent.invoke\<close> itself does with a
  capability call that failed is the library's and is not settled here.
\<close>

lemma on_message_always_replies:
  assumes "user_session p sid = Some a"
  shows "fst (on_message lib sid content p) = Inr () \<and>
         (\<exists>reply. reply \<noteq> [] \<and>
            outbox (snd (on_message lib sid content p)) = outbox p @ [(sid, reply)]) \<and>
         user_session (snd (on_message lib sid content p)) = user_session p \<and>
         (\<forall>items e. agent_invoke lib (length (invocations p)) a content = (items, Some e) \<longrightarrow>
            outbox (snd (on_message lib sid content p)) = outbox p @ [(sid, error_prefix @ str_exc e)])"
proof (intro conjI allI impI)
  show "fst (on_message lib sid content p) = Inr ()" by (rule on_message_returns)
  show "user_session (snd (on_message lib sid content p)) = user_session p"
    by (rule on_message_frame(1))
  show "\<exists>reply. reply \<noteq> [] \<and> outbox (snd (on_message lib sid content p)) = outbox p @ [(sid, reply)]"
  proof (cases "agent_invoke lib (length (invocations p)) a content")
    case (Pair items r)
    show ?thesis
    proof (cases r)
      case None
      with Pair assms show ?thesis
        by (simp add: on_message_finished send_fields reply_texts_nonempty)
    next
      case (Some e)
      with Pair assms show ?thesis
        by (simp add: on_message_raised send_fields reply_texts_nonempty)
    qed
  qed
next
  fix items e
  assume "agent_invoke lib (length (invocations p)) a content = (items, Some e)"
  with assms show "outbox (snd (on_message lib sid content p)) = outbox p @ [(sid, error_prefix @ str_exc e)]"
    by (simp add: on_message_raised send_fields)
qed

text \<open>
  Claim C9. When the session has no agent stored, \<^verbatim>\<open>on_message\<close> sends the fixed
  ``Agent not initialized'' message to that session and returns normally; nothing else
  changes: \<^verbatim>\<open>agent.invoke\<close> is not called, the session table is as before.
\<close>

theorem on_message_agent_missing:
  assumes "user_session p sid = None"
  shows "on_message lib sid content p = (Inr (), p\<lparr>outbox := outbox p @ [(sid, not_initialized_msg)]\<rparr>)"
  using assms by (simp add: on_message_no_agent send_def)

text \<open>
  A session whose \<^verbatim>\<open>start\<close> failed on an empty environment has no agent; its first
  message gets the fixed reply.
\<close>

theorem on_message_agent_missing_witness:
  "fst (start lib_hello 1 (boot Map.empty)) = Inl (ValueError config_error_msg) \<and>
   user_session (host_run lib_hello [ChatStart 1] (boot Map.empty)) 1 = None \<and>
   on_message lib_hello 1 ''list namespaces'' (host_run lib_hello [ChatStart 1] (boot Map.empty)) =
     (Inr (), (boot Map.empty)\<lparr>outbox := [(1, not_initialized_msg)]\<rparr>)"
  using on_message_agent_missing [of "host_run lib_hello [ChatStart 1] (boot Map.empty)" 1 lib_hello
      "''list namespaces''"]
  by (simp add: run_defs lib_hello_def)

section \<open>Adapters over the life of sessions\<close>

text \<open>
  The session host never stops an adapter: whatever sessions open, talk and close, in
  whatever order their handlers run, the adapters stopped are those stopped before.
\<close>

lemma host_run_never_stops:
  "stopped (adapter_events (host_run lib es p)) = stopped (adapter_events p)"
  by (rule run_fields(2))

text \<open>
  Claim C6 asks for one stop per successful start. The code at a whole session (open,
  one message, close): the adapter is started and never stopped. The test script's
  clean-up, run after the same start, does stop it.
\<close>

theorem session_host_never_stops_adapter:
  "adapter_events (host_run lib_hello [ChatStart 1, UserMessage 1 ''list namespaces'', ChatEnd 1]
       (boot env_configured)) = [Started 0] \<and>
   adapter_events (test_main_app_cleanup (host_run lib_hello [ChatStart 1] (boot env_configured))) =
     [Started 0, Stopped 0]"
  by (simp add: run_defs lib_hello_def test_main_app_cleanup_def aexit_def)

text \<open>
  A start that is suspended and resumed with nothing in between is the start run as a
  whole.
\<close>

lemma start_suspended_and_resumed:
  "pending p sid = None \<Longrightarrow>
   host_run lib [StartBegins sid, StartResumes sid] p = host_run lib [ChatStart sid] p"
  by (rule start_phases_agree)




end
